theory Spec2Isabelle
  imports Main "HOL-Library.Code_Target_Numeral"
begin

section \<open>JavaScript values as the helper uses them\<close>

text \<open>
  The Gitea helper (\<^verbatim>\<open>src/services/providers/helpers/giteaHelper.js\<close>) is asynchronous
  JavaScript.  A string is a list of code units; a property that may be \<^verbatim>\<open>undefined\<close> is an
  \<open>option\<close>; a thrown exception or a rejected promise is the \<open>Inl\<close> of a sum.
\<close>

datatype error =
    TypeError                 \<comment> \<open>property read or destructuring of \<^verbatim>\<open>undefined\<close> / \<^verbatim>\<open>null\<close>\<close>
  | Error string              \<comment> \<open>\<^verbatim>\<open>new Error(message)\<close>\<close>
  | Rejected "int option"     \<comment> \<open>rejection by a collaborator; the argument is \<^verbatim>\<open>err.status\<close>\<close>

fun status :: "error \<Rightarrow> int option" where
  "status TypeError = None"
| "status (Error m) = None"
| "status (Rejected s) = s"

text \<open>
  A number is an integer or \<^verbatim>\<open>NaN\<close> (what \<^verbatim>\<open>undefined * 1000\<close> gives).  The numbers of
  JavaScript are IEEE doubles; the model computes with exact integers.  The two agree on a
  product or a sum whose operands and result are safe integers (\<^verbatim>\<open>Number.isSafeInteger\<close>,
  at most \<open>2 ^ 53 - 1\<close> in absolute value), and beyond that range a double is rounded and
  the model is not.  Rounding is monotone, so whether \<^verbatim>\<open>Date.now() + expires_in * 1000\<close> is
  later than the current time does not depend on it.  A theorem that states the value of a
  sum or a product carries the bound.
\<close>

datatype jsnum = Num int | NaN

definition isSafeInteger :: "int \<Rightarrow> bool" where
  "isSafeInteger x = (\<bar>x\<bar> \<le> 2 ^ 53 - 1)"

text \<open>Truthiness of an optional string and of an optional number: \<^verbatim>\<open>undefined\<close>, \<^verbatim>\<open>''\<close>,
  \<^verbatim>\<open>0\<close> and \<^verbatim>\<open>NaN\<close> are falsy.\<close>

fun truthy :: "string option \<Rightarrow> bool" where
  "truthy None = False"
| "truthy (Some s) = (s \<noteq> [])"

fun truthy_num :: "jsnum option \<Rightarrow> bool" where
  "truthy_num None = False"
| "truthy_num (Some NaN) = False"
| "truthy_num (Some (Num n)) = (n \<noteq> 0)"

text \<open>\<^verbatim>\<open>a > b\<close> for a property that holds a number, against a number: false on \<^verbatim>\<open>undefined\<close>
  and on \<^verbatim>\<open>NaN\<close>.\<close>

fun js_gt :: "jsnum option \<Rightarrow> int \<Rightarrow> bool" where
  "js_gt (Some (Num a)) b = (b < a)"
| "js_gt _ b = False"

text \<open>A value inside a template literal: \<^verbatim>\<open>`${x}`\<close>.\<close>

fun tmpl :: "string option \<Rightarrow> string" where
  "tmpl None = ''undefined''"
| "tmpl (Some s) = s"

section \<open>The two regular expressions\<close>

text \<open>\<^verbatim>\<open>[^/]+\<close> and \<^verbatim>\<open>.+\<close> matching the whole of a string; \<^verbatim>\<open>.\<close> excludes the line
  terminators.\<close>

definition non_slash_plus :: "string \<Rightarrow> bool" where
  "non_slash_plus x = (x \<noteq> [] \<and> list_all (\<lambda>c. c \<noteq> CHR ''/'') x)"

definition line_terminator :: "char \<Rightarrow> bool" where
  "line_terminator c = (c = CHR 0x0A \<or> c = CHR 0x0D)"

definition dot_plus :: "string \<Rightarrow> bool" where
  "dot_plus x = (x \<noteq> [] \<and> list_all (\<lambda>c. \<not> line_terminator c) x)"

text \<open>\<^verbatim>\<open>[^/]+\/[^/]+$\<close> anchored at the start of \<open>t\<close>: some position \<open>k\<close> holds the slash.\<close>

definition two_segments :: "string \<Rightarrow> bool" where
  "two_segments t =
     list_ex (\<lambda>k. non_slash_plus (take k t) \<and> t ! k = CHR ''/'' \<and> non_slash_plus (drop (Suc k) t))
       [0..<length t]"

text \<open>\<^verbatim>\<open>projectPath.match(/([^/]+\/[^/]+)$/)\<close>: the search tries the start positions from the
  left; the result is the first capture group, \<open>None\<close> when \<^verbatim>\<open>match\<close> returns \<^verbatim>\<open>null\<close>.\<close>

fun match_repoFullName :: "string \<Rightarrow> string option" where
  "match_repoFullName [] = None"
| "match_repoFullName (c # cs) =
     (if two_segments (c # cs) then Some (c # cs) else match_repoFullName cs)"

text \<open>\<^verbatim>\<open>sub.match(/^(.+)\/([^/]+)$/)\<close>: the first group is greedy, so the slash is looked for
  from the right; the result is the pair of capture groups.\<close>

definition match_sub :: "string \<Rightarrow> (string \<times> string) option" where
  "match_sub s =
     (case filter (\<lambda>k. dot_plus (take k s) \<and> s ! k = CHR ''/'' \<and> non_slash_plus (drop (Suc k) s))
             (rev [0..<length s]) of
        [] \<Rightarrow> None
      | k # _ \<Rightarrow> Some (take k s, drop (Suc k) s))"

section \<open>The commit message template\<close>

text \<open>
  \<^verbatim>\<open>message.replace(/{{path}}/g, path)\<close>.  The replacement is a string, so \<^verbatim>\<open>replace\<close>
  expands the patterns \<^verbatim>\<open>$$\<close>, \<^verbatim>\<open>$&\<close>, \<^verbatim>\<open>$`\<close> and \<^verbatim>\<open>$'\<close> in it (the expression has no
  capture group, so \<^verbatim>\<open>$1\<close> and the like stay as they are).  \<open>substitution m b a r\<close> expands
  the replacement \<open>r\<close> for the matched text \<open>m\<close>, with \<open>b\<close> before it and \<open>a\<close> after it.
\<close>

fun substitution :: "string \<Rightarrow> string \<Rightarrow> string \<Rightarrow> string \<Rightarrow> string" where
  "substitution m b a [] = []"
| "substitution m b a [c] = [c]"
| "substitution m b a (c # d # r) =
     (if c = CHR ''$'' then
        (if d = CHR ''$'' then CHR ''$'' # substitution m b a r
         else if d = CHR ''&'' then m @ substitution m b a r
         else if d = CHR 0x60 then b @ substitution m b a r
         else if d = CHR 0x27 then a @ substitution m b a r
         else c # substitution m b a (d # r))
      else c # substitution m b a (d # r))"

text \<open>The global replacement scans \<open>s\<close> from the left; \<open>passed\<close> is the part of the message
  already scanned.\<close>

function replace_path :: "string \<Rightarrow> string \<Rightarrow> string \<Rightarrow> string" where
  "replace_path passed s r =
     (if s = [] then []
      else if take 8 s = ''{{path}}''
        then substitution ''{{path}}'' passed (drop 8 s) r
               @ replace_path (passed @ ''{{path}}'') (drop 8 s) r
      else hd s # replace_path (passed @ [hd s]) (tl s) r)"
  by pat_completeness auto
termination
  by (relation "measure (\<lambda>(passed, s, r). length s)") auto

declare replace_path.simps [simp del]

section \<open>Tokens, requests and the world around the helper\<close>

text \<open>The account token that \<^verbatim>\<open>startOauth2\<close> builds and the Token Store keeps.  A token stored
  before expiration was tracked has no \<^verbatim>\<open>expiresOn\<close>.\<close>

record token =
  tok_accessToken :: "string option"
  tok_name :: "string option"
  tok_applicationId :: string
  tok_applicationSecret :: string
  tok_refreshToken :: "string option"
  tok_expiresOn :: "jsnum option"
  tok_serverUrl :: string
  tok_sub :: string

text \<open>A response body, seen through the properties the helper reads from it; a property the
  response does not have is \<open>None\<close>.  A present property has the type the provider's API
  documents for it.\<close>

record body =
  body_access_token :: "string option"
  body_refresh_token :: "string option"
  body_expires_in :: "int option"
  body_username :: "string option"
  body_avatar_url :: "string option"
  body_sha :: "string option"
  body_content :: "string option"

record user_info =
  info_id :: string
  info_name :: "string option"
  info_imageUrl :: string

text \<open>The options of \<^verbatim>\<open>networkSvc.request\<close>.  \<open>opt_params\<close> and \<open>opt_body\<close> list the properties
  of the object literal in the order of the source; a value is \<open>None\<close> when it is
  \<^verbatim>\<open>undefined\<close>.\<close>

record options =
  opt_method :: "string option"
  opt_url :: string
  opt_authorization :: "string option"
  opt_params :: "(string \<times> string option) list"
  opt_body :: "(string \<times> string option) list"

text \<open>What the helper asks of its collaborators, in the order it asks.\<close>

datatype event =
    OauthPopup string "(string \<times> string option) list" bool
      \<comment> \<open>\<^verbatim>\<open>networkSvc.startOauth2(url, params, silent)\<close>\<close>
  | Request options
      \<comment> \<open>\<^verbatim>\<open>networkSvc.request(options)\<close>\<close>
  | ModalOpen string string
      \<comment> \<open>\<^verbatim>\<open>store.dispatch('modal/open', {type, name})\<close>\<close>
  | AddUserInfo user_info
      \<comment> \<open>\<^verbatim>\<open>userSvc.addUserInfo(info)\<close>\<close>
  | AddGiteaToken token
      \<comment> \<open>\<^verbatim>\<open>store.dispatch('data/addGiteaToken', token)\<close>\<close>
  | AddBadge string
      \<comment> \<open>\<^verbatim>\<open>badgeSvc.addBadge(name)\<close>\<close>

text \<open>
  The state the helper reads and writes: the Token Store, the offline flag, the git settings
  with the commit message templates, the clock (\<^verbatim>\<open>Date.now()\<close>, milliseconds since the
  epoch), the number of promises awaited from collaborators so far, and the log of events.
  A run is sequential: while it waits for a promise the clock advances, and nothing else
  writes the store, the flag or the settings.
\<close>

record world =
  giteaTokensBySub :: "string \<rightharpoonup> token"
  offline :: bool
  gitSettings :: "string \<rightharpoonup> string"
  now :: nat
  calls :: nat
  trace :: "event list"

text \<open>
  The collaborators are parameters.  An awaited promise settles after \<open>elapsed\<close> milliseconds
  with \<open>outcome\<close>: \<open>Inl\<close> when it rejects.  The \<open>n\<close>-th awaited promise of a run settles as
  the environment says at \<open>n\<close>: \<open>popup\<close> for \<^verbatim>\<open>networkSvc.startOauth2\<close> (the \<^verbatim>\<open>code\<close> of
  the object it resolves to), \<open>http\<close> for \<^verbatim>\<open>networkSvc.request\<close> (the \<^verbatim>\<open>body\<close> of the response
  it resolves to, \<open>None\<close> when that is \<^verbatim>\<open>undefined\<close> or \<^verbatim>\<open>null\<close>), \<open>modal\<close> for the modal.
\<close>

record 'a reply =
  elapsed :: nat
  outcome :: "error + 'a"

record env =
  popup :: "nat \<Rightarrow> (string option) reply"
  http :: "nat \<Rightarrow> (body option) reply"
  modal :: "nat \<Rightarrow> unit reply"
  oauth2RedirectUri :: string
  encodeURIComponent :: "string \<Rightarrow> string"
  encodeBase64 :: "string \<Rightarrow> string"
  decodeBase64 :: "string option \<Rightarrow> error + string"

section \<open>Promises: state passing with rejection\<close>

type_synonym 'a io = "world \<Rightarrow> (error + 'a) \<times> world"

definition resolve :: "'a \<Rightarrow> 'a io" where
  "resolve x = (\<lambda>w. (Inr x, w))"

definition reject :: "error \<Rightarrow> 'a io" where
  "reject e = (\<lambda>w. (Inl e, w))"

definition andThen :: "'a io \<Rightarrow> ('a \<Rightarrow> 'b io) \<Rightarrow> 'b io" where
  "andThen m f = (\<lambda>w. case m w of (Inl e, w') \<Rightarrow> (Inl e, w') | (Inr x, w') \<Rightarrow> f x w')"

definition catch :: "'a io \<Rightarrow> (error \<Rightarrow> 'a io) \<Rightarrow> 'a io" where
  "catch m h = (\<lambda>w. case m w of (Inl e, w') \<Rightarrow> h e w' | (Inr x, w') \<Rightarrow> (Inr x, w'))"

definition emit :: "event \<Rightarrow> unit io" where
  "emit ev = (\<lambda>w. (Inr (), w\<lparr>trace := trace w @ [ev]\<rparr>))"

definition await :: "event \<Rightarrow> (nat \<Rightarrow> 'a reply) \<Rightarrow> 'a io" where
  "await ev oracle =
     (\<lambda>w. let r = oracle (calls w)
          in (outcome r,
              w\<lparr>now := now w + elapsed r, calls := Suc (calls w), trace := trace w @ [ev]\<rparr>))"

definition networkSvc_request :: "env \<Rightarrow> options \<Rightarrow> (body option) io" where
  "networkSvc_request env opts = await (Request opts) (http env)"

definition networkSvc_startOauth2 ::
  "env \<Rightarrow> string \<Rightarrow> (string \<times> string option) list \<Rightarrow> bool \<Rightarrow> (string option) io" where
  "networkSvc_startOauth2 env url params silent = await (OauthPopup url params silent) (popup env)"

definition modal_open :: "env \<Rightarrow> string \<Rightarrow> string \<Rightarrow> unit io" where
  "modal_open env type name = await (ModalOpen type name) (modal env)"

definition userSvc_addUserInfo :: "user_info \<Rightarrow> unit io" where
  "userSvc_addUserInfo info = emit (AddUserInfo info)"

definition badgeSvc_addBadge :: "string \<Rightarrow> unit io" where
  "badgeSvc_addBadge name = emit (AddBadge name)"

text \<open>
  Modelled from the spec: the action \<^verbatim>\<open>data/addGiteaToken\<close> of the store, which is not part
  of the helper.  The spec: the Token Store is a mapping from sub to Account Token; a
  successful acquisition persists the new token, replacing any existing entry for that sub.
\<close>

definition addGiteaToken :: "token \<Rightarrow> unit io" where
  "addGiteaToken token =
     (\<lambda>w. (Inr (), w\<lparr>giteaTokensBySub := (giteaTokensBySub w)(tok_sub token \<mapsto> token),
                      trace := trace w @ [AddGiteaToken token]\<rparr>))"

text \<open>Reading the clock and the store does not change the world.\<close>

definition Date_now :: "nat io" where
  "Date_now = (\<lambda>w. (Inr (now w), w))"

definition store_giteaTokensBySub :: "string \<Rightarrow> (token option) io" where
  "store_giteaTokensBySub sub = (\<lambda>w. (Inr (giteaTokensBySub w sub), w))"

definition store_offline :: "bool io" where
  "store_offline = (\<lambda>w. (Inr (offline w), w))"

definition store_gitSettings :: "string \<Rightarrow> (string option) io" where
  "store_gitSettings name = (\<lambda>w. (Inr (gitSettings w name), w))"

section \<open>The helper\<close>

definition tokenExpirationMargin :: int where
  "tokenExpirationMargin = 5 * 60 * 1000"

definition subPrefix :: string where
  "subPrefix = ''gt''"

definition request :: "env \<Rightarrow> string option \<Rightarrow> string \<Rightarrow> options \<Rightarrow> (body option) io" where
  "request env accessToken serverUrl options =
     networkSvc_request env
       (options\<lparr>opt_url := serverUrl @ ''/api/v1/'' @ opt_url options,
                opt_authorization := Some (''Bearer '' @ tmpl accessToken)\<rparr>)"

definition getCommitMessage :: "string \<Rightarrow> string \<Rightarrow> string io" where
  "getCommitMessage name path =
     andThen (store_gitSettings name)
       (\<lambda>message. case message of
           None \<Rightarrow> reject TypeError
         | Some m \<Rightarrow> resolve (replace_path [] m path))"

definition giteaInfoResolver :: "env \<Rightarrow> string \<Rightarrow> user_info io" where
  "giteaInfoResolver env sub =
     catch
       (case match_sub sub of
          None \<Rightarrow> reject TypeError
        | Some (serverUrl, username) \<Rightarrow>
            andThen
              (networkSvc_request env
                 \<lparr>opt_method = None, opt_url = serverUrl @ ''/api/v1/users/'' @ username,
                  opt_authorization = None, opt_params = [], opt_body = []\<rparr>)
              (\<lambda>user. case user of
                  None \<Rightarrow> reject TypeError
                | Some u \<Rightarrow>
                    let uniqueSub = serverUrl @ ''/'' @ tmpl (body_username u)
                    in resolve
                         \<lparr>info_id = subPrefix @ '':'' @ uniqueSub,
                          info_name = body_username u,
                          info_imageUrl = (case body_avatar_url u of None \<Rightarrow> [] | Some a \<Rightarrow> a)\<rparr>))
       (\<lambda>err. if status err \<noteq> Some 404 then reject (Error ''RETRY'') else reject err)"

text \<open>The \<^verbatim>\<open>expiresOn\<close> of the new token, \<^verbatim>\<open>Date.now() + expires_in * 1000\<close>, is computed on
  exact integers here: it is the value of the code while the numbers are safe integers.\<close>

definition startOauth2 ::
  "env \<Rightarrow> string \<Rightarrow> string \<Rightarrow> string \<Rightarrow> string option \<Rightarrow> bool \<Rightarrow> string option \<Rightarrow> token io" where
  "startOauth2 env serverUrl applicationId applicationSecret sub silent refreshToken =
     andThen
       (if \<not> silent then
          andThen
            (networkSvc_startOauth2 env (serverUrl @ ''/login/oauth/authorize'')
               [(''client_id'', Some applicationId),
                (''response_type'', Some ''code''),
                (''redirect_uri'', Some (oauth2RedirectUri env))]
               silent)
            (\<lambda>code.
               networkSvc_request env
                 \<lparr>opt_method = Some ''POST'',
                  opt_url = serverUrl @ ''/login/oauth/access_token'',
                  opt_authorization = None, opt_params = [],
                  opt_body =
                    [(''client_id'', Some applicationId),
                     (''client_secret'', Some applicationSecret),
                     (''code'', code),
                     (''grant_type'', Some ''authorization_code''),
                     (''redirect_uri'', Some (oauth2RedirectUri env))]\<rparr>)
        else
          networkSvc_request env
            \<lparr>opt_method = Some ''POST'',
             opt_url = serverUrl @ ''/login/oauth/access_token'',
             opt_authorization = None, opt_params = [],
             opt_body =
               [(''client_id'', Some applicationId),
                (''client_secret'', Some applicationSecret),
                (''refresh_token'', refreshToken),
                (''grant_type'', Some ''refresh_token''),
                (''redirect_uri'', Some (oauth2RedirectUri env))]\<rparr>)
       (\<lambda>tokenBody. case tokenBody of
           None \<Rightarrow> reject TypeError
         | Some tb \<Rightarrow>
             let accessToken = body_access_token tb in
             andThen
               (request env accessToken serverUrl
                  \<lparr>opt_method = None, opt_url = ''user'', opt_authorization = None,
                   opt_params = [], opt_body = []\<rparr>)
               (\<lambda>user. case user of
                   None \<Rightarrow> reject TypeError
                 | Some u \<Rightarrow>
                     let uniqueSub = serverUrl @ ''/'' @ tmpl (body_username u) in
                     andThen
                       (userSvc_addUserInfo
                          \<lparr>info_id = subPrefix @ '':'' @ uniqueSub,
                           info_name = body_username u,
                           info_imageUrl =
                             (case body_avatar_url u of None \<Rightarrow> [] | Some a \<Rightarrow> a)\<rparr>)
                       (\<lambda>_.
                          if truthy sub \<and> Some uniqueSub \<noteq> sub
                          then reject (Error ''Gitea account ID not expected.'')
                          else
                            andThen Date_now
                              (\<lambda>t.
                                 let token =
                                   \<lparr>tok_accessToken = accessToken,
                                    tok_name = body_username u,
                                    tok_applicationId = applicationId,
                                    tok_applicationSecret = applicationSecret,
                                    tok_refreshToken = body_refresh_token tb,
                                    tok_expiresOn =
                                      Some (case body_expires_in tb of
                                              None \<Rightarrow> NaN
                                            | Some n \<Rightarrow> Num (int t + n * 1000)),
                                    tok_serverUrl = serverUrl,
                                    tok_sub = uniqueSub\<rparr>
                                 in andThen (addGiteaToken token) (\<lambda>_. resolve token)))))"

definition refreshToken :: "env \<Rightarrow> token \<Rightarrow> token io" where
  "refreshToken env token =
     (let serverUrl = tok_serverUrl token;
          applicationId = tok_applicationId token;
          applicationSecret = tok_applicationSecret token;
          sub = tok_sub token
      in andThen (store_giteaTokensBySub sub)
           (\<lambda>stored. case stored of
               None \<Rightarrow> reject TypeError
             | Some lastToken \<Rightarrow>
                 if \<not> truthy_num (tok_expiresOn lastToken) then
                   andThen (modal_open env ''providerRedirection'' ''Gitea'')
                     (\<lambda>_. startOauth2 env serverUrl applicationId applicationSecret (Some sub)
                             False None)
                 else
                   andThen Date_now
                     (\<lambda>t.
                        if js_gt (tok_expiresOn lastToken) (int t + tokenExpirationMargin)
                        then resolve lastToken
                        else
                          catch
                            (startOauth2 env serverUrl applicationId applicationSecret
                               (Some sub) True (tok_refreshToken lastToken))
                            (\<lambda>err.
                               andThen store_offline
                                 (\<lambda>off.
                                    if off then reject err
                                    else
                                      andThen
                                        (modal_open env ''providerRedirection'' ''Gitea'')
                                        (\<lambda>_. startOauth2 env serverUrl applicationId
                                                applicationSecret (Some sub) False None))))))"

definition addAccount ::
  "env \<Rightarrow> string \<Rightarrow> string \<Rightarrow> string \<Rightarrow> string option \<Rightarrow> token io" where
  "addAccount env serverUrl applicationId applicationSecret sub =
     andThen (startOauth2 env serverUrl applicationId applicationSecret sub False None)
       (\<lambda>token. andThen (badgeSvc_addBadge ''addGiteaAccount'') (\<lambda>_. resolve token))"

section \<open>getProjectId\<close>

text \<open>The argument object \<^verbatim>\<open>{projectPath, projectId}\<close> is given by its two properties.\<close>

definition getProjectId :: "string option \<Rightarrow> string option \<Rightarrow> error + string" where
  "getProjectId projectPath projectId =
     (let fromPath =
        (case projectPath of
           None \<Rightarrow> Inl TypeError
         | Some path \<Rightarrow>
             (case match_repoFullName path of
                None \<Rightarrow> Inl TypeError
              | Some repoFullName \<Rightarrow> Inr repoFullName))
      in case projectId of
           None \<Rightarrow> fromPath
         | Some i \<Rightarrow> if truthy projectId then Inr i else fromPath)"

section \<open>The authenticated operations\<close>

definition getTree :: "env \<Rightarrow> token \<Rightarrow> string \<Rightarrow> string \<Rightarrow> (body option) io" where
  "getTree env token projectId branch =
     andThen (refreshToken env token)
       (\<lambda>refreshedToken.
          request env (tok_accessToken refreshedToken) (tok_serverUrl refreshedToken)
            \<lparr>opt_method = None,
             opt_url = ''repos/'' @ projectId @ ''/git/trees/'' @ branch,
             opt_authorization = None,
             opt_params = [(''recursive'', Some ''true''), (''per_page'', Some ''9999'')],
             opt_body = []\<rparr>)"

definition getCommits ::
  "env \<Rightarrow> token \<Rightarrow> string \<Rightarrow> string \<Rightarrow> string option \<Rightarrow> (body option) io" where
  "getCommits env token projectId branch path =
     andThen (refreshToken env token)
       (\<lambda>refreshedToken.
          request env (tok_accessToken refreshedToken) (tok_serverUrl refreshedToken)
            \<lparr>opt_method = None,
             opt_url = ''repos/'' @ projectId @ ''/commits'',
             opt_authorization = None,
             opt_params = [(''sha'', Some branch), (''path'', path)],
             opt_body = []\<rparr>)"

definition uploadFile ::
  "env \<Rightarrow> token \<Rightarrow> string \<Rightarrow> string \<Rightarrow> string \<Rightarrow> string \<Rightarrow> string option
     \<Rightarrow> (body option) io" where
  "uploadFile env token projectId branch path content sha =
     andThen (refreshToken env token)
       (\<lambda>refreshedToken.
          andThen
            (getCommitMessage
               (if truthy sha then ''updateFileMessage'' else ''createFileMessage'') path)
            (\<lambda>message.
               request env (tok_accessToken refreshedToken) (tok_serverUrl refreshedToken)
                 \<lparr>opt_method = Some (if truthy sha then ''PUT'' else ''POST''),
                  opt_url = ''repos/'' @ projectId @ ''/contents/'' @ encodeURIComponent env path,
                  opt_authorization = None,
                  opt_params = [],
                  opt_body =
                    [(''message'', Some message),
                     (''content'', Some (encodeBase64 env content)),
                     (''sha'', sha),
                     (''branch'', Some branch)]\<rparr>))"

definition removeFile ::
  "env \<Rightarrow> token \<Rightarrow> string \<Rightarrow> string \<Rightarrow> string \<Rightarrow> string option \<Rightarrow> (body option) io" where
  "removeFile env token projectId branch path sha =
     andThen (refreshToken env token)
       (\<lambda>refreshedToken.
          andThen (getCommitMessage ''deleteFileMessage'' path)
            (\<lambda>message.
               request env (tok_accessToken refreshedToken) (tok_serverUrl refreshedToken)
                 \<lparr>opt_method = Some ''DELETE'',
                  opt_url = ''repos/'' @ projectId @ ''/contents/'' @ encodeURIComponent env path,
                  opt_authorization = None,
                  opt_params = [],
                  opt_body =
                    [(''message'', Some message),
                     (''sha'', sha),
                     (''branch'', Some branch)]\<rparr>))"

text \<open>The result of \<^verbatim>\<open>downloadFile\<close> is the object \<^verbatim>\<open>{sha, data}\<close>, here a pair.\<close>

definition downloadFile ::
  "env \<Rightarrow> token \<Rightarrow> string \<Rightarrow> string \<Rightarrow> string \<Rightarrow> (string option \<times> string) io" where
  "downloadFile env token projectId branch path =
     andThen (refreshToken env token)
       (\<lambda>refreshedToken.
          andThen
            (request env (tok_accessToken refreshedToken) (tok_serverUrl refreshedToken)
               \<lparr>opt_method = None,
                opt_url = ''repos/'' @ projectId @ ''/contents/'' @ encodeURIComponent env path,
                opt_authorization = None,
                opt_params = [(''ref'', Some branch)],
                opt_body = []\<rparr>)
            (\<lambda>res. case res of
                None \<Rightarrow> reject TypeError
              | Some b \<Rightarrow>
                  (case decodeBase64 env (body_content b) of
                     Inl e \<Rightarrow> reject e
                   | Inr data \<Rightarrow> resolve (body_sha b, data))))"

section \<open>Segments of a path\<close>

text \<open>
  The words of the specification for \<^verbatim>\<open>getProjectId\<close>: the segments of a path are what
  \<^verbatim>\<open>path.split('/')\<close> gives; \<open>last_two\<close> takes the last two of them, when there are two.
  \<open>segments_id\<close> joins the last two segments with a slash when both are non-empty.
\<close>

fun split_slash :: "string \<Rightarrow> string list" where
  "split_slash [] = [[]]"
| "split_slash (c # cs) =
     (if c = CHR ''/'' then [] # split_slash cs
      else case split_slash cs of [] \<Rightarrow> [[c]] | x # xs \<Rightarrow> (c # x) # xs)"

fun last_two :: "'a list \<Rightarrow> ('a \<times> 'a) option" where
  "last_two [] = None"
| "last_two [a] = None"
| "last_two [a, b] = Some (a, b)"
| "last_two (a # b # c # xs) = last_two (b # c # xs)"

definition segments_id :: "string \<Rightarrow> string option" where
  "segments_id path =
     (case last_two (split_slash path) of
        None \<Rightarrow> None
      | Some (a, b) \<Rightarrow> if a \<noteq> [] \<and> b \<noteq> [] then Some (a @ ''/'' @ b) else None)"

text \<open>The identifier derived from the path: the read of \<^verbatim>\<open>match\<close> on a missing path and the
  destructuring of a failed match both throw.\<close>

definition path_id :: "string option \<Rightarrow> error + string" where
  "path_id projectPath =
     (case projectPath of
        None \<Rightarrow> Inl TypeError
      | Some path \<Rightarrow> (case segments_id path of None \<Rightarrow> Inl TypeError | Some r \<Rightarrow> Inr r))"

section \<open>Observing a run\<close>

text \<open>The events a computation adds to the log when it runs from \<open>w\<close>.\<close>

definition events_of :: "'a io \<Rightarrow> world \<Rightarrow> event list" where
  "events_of m w = drop (length (trace w)) (trace (snd (m w)))"

fun is_modal :: "event \<Rightarrow> bool" where
  "is_modal (ModalOpen type name) = True"
| "is_modal _ = False"

text \<open>The interactive step of the OAuth2 flow is the redirect or popup.\<close>

fun is_popup :: "event \<Rightarrow> bool" where
  "is_popup (OauthPopup url params silent) = True"
| "is_popup _ = False"

text \<open>The silent exchange is the request whose body has the grant type
  \<^verbatim>\<open>refresh_token\<close>.\<close>

fun is_silent_exchange :: "event \<Rightarrow> bool" where
  "is_silent_exchange (Request r) =
     (map_of (opt_body r) ''grant_type'' = Some (Some ''refresh_token''))"
| "is_silent_exchange _ = False"

fun is_store_write :: "event \<Rightarrow> bool" where
  "is_store_write (AddGiteaToken t) = True"
| "is_store_write _ = False"

text \<open>
  \<open>extends P w w'\<close>: the world \<open>w'\<close> comes after \<open>w\<close> in a run whose new events all satisfy
  \<open>P\<close>.  The offline flag and the settings are those of \<open>w\<close>, the clock and the count of
  awaited promises have not gone back, and the Token Store is that of \<open>w\<close> unless one of
  the new events is a write to it.  \<open>frame P m\<close>: every run of \<open>m\<close> is such.
\<close>

definition extends :: "(event \<Rightarrow> bool) \<Rightarrow> world \<Rightarrow> world \<Rightarrow> bool" where
  "extends P w w' =
     (offline w' = offline w \<and> gitSettings w' = gitSettings w
      \<and> now w \<le> now w' \<and> calls w \<le> calls w'
      \<and> (\<exists>evs. trace w' = trace w @ evs \<and> list_all P evs
            \<and> (list_all (\<lambda>ev. \<not> is_store_write ev) evs
                 \<longrightarrow> giteaTokensBySub w' = giteaTokensBySub w)))"

definition frame :: "(event \<Rightarrow> bool) \<Rightarrow> 'a io \<Rightarrow> bool" where
  "frame P m = (\<forall>w. extends P w (snd (m w)))"

section \<open>Example runs\<close>

definition alice_sub :: string where
  "alice_sub = ''https://git.example.com/alice''"

definition alice_token :: "jsnum option \<Rightarrow> token" where
  "alice_token e =
     \<lparr>tok_accessToken = Some ''a1'', tok_name = Some ''alice'', tok_applicationId = ''app'',
      tok_applicationSecret = ''secret'', tok_refreshToken = Some ''r1'', tok_expiresOn = e,
      tok_serverUrl = ''https://git.example.com'', tok_sub = alice_sub\<rparr>"

definition alice_world :: "jsnum option \<Rightarrow> bool \<Rightarrow> world" where
  "alice_world e off =
     \<lparr>giteaTokensBySub = [alice_sub \<mapsto> alice_token e], offline = off,
      gitSettings = [''createFileMessage'' \<mapsto> ''{{path}} created'',
                     ''updateFileMessage'' \<mapsto> ''{{path}} updated'',
                     ''deleteFileMessage'' \<mapsto> ''{{path}} deleted''],
      now = 1000000, calls = 0, trace = []\<rparr>"

definition settled :: "'a \<Rightarrow> 'a reply" where
  "settled x = \<lparr>elapsed = 20, outcome = Inr x\<rparr>"

definition failed :: "error \<Rightarrow> 'a reply" where
  "failed e = \<lparr>elapsed = 20, outcome = Inl e\<rparr>"

definition gitea_body :: "int option \<Rightarrow> string \<Rightarrow> body" where
  "gitea_body n u =
     \<lparr>body_access_token = Some ''a2'', body_refresh_token = Some ''r2'', body_expires_in = n,
      body_username = Some u, body_avatar_url = None, body_sha = Some ''h1'',
      body_content = Some ''aGVsbG8=''\<rparr>"

definition example_env ::
  "(nat \<Rightarrow> (string option) reply) \<Rightarrow> (nat \<Rightarrow> (body option) reply) \<Rightarrow> (nat \<Rightarrow> unit reply) \<Rightarrow> env" where
  "example_env p h m =
     \<lparr>popup = p, http = h, modal = m,
      oauth2RedirectUri = ''https://stackedit.io/oauth2/callback'',
      encodeURIComponent = (\<lambda>s. s), encodeBase64 = (\<lambda>s. s),
      decodeBase64 = (\<lambda>c. case c of None \<Rightarrow> Inl TypeError | Some x \<Rightarrow> Inr x)\<rparr>"

text \<open>The provider answers every request with a token valid for \<open>n\<close> seconds and the
  user \<open>u\<close>; the user accepts every prompt and popup.\<close>

definition online_env :: "int option \<Rightarrow> string \<Rightarrow> env" where
  "online_env n u =
     example_env (\<lambda>k. settled (Some ''c0de'')) (\<lambda>k. settled (Some (gitea_body n u)))
       (\<lambda>k. settled ())"

text \<open>Every request fails with status \<open>st\<close>.\<close>

definition failing_env :: "int option \<Rightarrow> env" where
  "failing_env st =
     example_env (\<lambda>k. settled (Some ''c0de'')) (\<lambda>k. failed (Rejected st)) (\<lambda>k. settled ())"

text \<open>The user dismisses the prompt: the promise of the modal rejects.\<close>

definition dismissing_env :: env where
  "dismissing_env =
     example_env (\<lambda>k. settled (Some ''c0de'')) (\<lambda>k. settled (Some (gitea_body (Some 3600) ''alice'')))
       (\<lambda>k. failed (Rejected None))"

text \<open>The provider rejects the first request and answers every later one.\<close>

definition flaky_env :: env where
  "flaky_env =
     example_env (\<lambda>k. settled (Some ''c0de''))
       (\<lambda>k. if k = 0 then failed (Rejected (Some 401))
            else settled (Some (gitea_body (Some 3600) ''alice'')))
       (\<lambda>k. settled ())"

section \<open>Rules for runs\<close>

lemmas example_defs = alice_sub_def alice_token_def alice_world_def settled_def failed_def
  gitea_body_def example_env_def online_env_def failing_env_def dismissing_env_def
  flaky_env_def

lemmas io_defs = resolve_def reject_def andThen_def catch_def emit_def await_def
  networkSvc_request_def networkSvc_startOauth2_def modal_open_def userSvc_addUserInfo_def
  badgeSvc_addBadge_def addGiteaToken_def request_def Date_now_def store_giteaTokensBySub_def
  store_offline_def store_gitSettings_def

lemma extends_refl: "extends P w w"
  by (simp add: extends_def)

lemma extends_trans:
  assumes "extends P w w1" and "extends P w1 w2"
  shows "extends P w w2"
proof -
  from assms(1) obtain evs1 where 1: "offline w1 = offline w" "gitSettings w1 = gitSettings w"
      "now w \<le> now w1" "calls w \<le> calls w1" "trace w1 = trace w @ evs1" "list_all P evs1"
      "list_all (\<lambda>ev. \<not> is_store_write ev) evs1 \<longrightarrow> giteaTokensBySub w1 = giteaTokensBySub w"
    unfolding extends_def by auto
  from assms(2) obtain evs2 where 2: "offline w2 = offline w1" "gitSettings w2 = gitSettings w1"
      "now w1 \<le> now w2" "calls w1 \<le> calls w2" "trace w2 = trace w1 @ evs2" "list_all P evs2"
      "list_all (\<lambda>ev. \<not> is_store_write ev) evs2 \<longrightarrow> giteaTokensBySub w2 = giteaTokensBySub w1"
    unfolding extends_def by auto
  have "trace w2 = trace w @ (evs1 @ evs2)" using 1 2 by simp
  moreover have "list_all P (evs1 @ evs2)" using 1 2 by simp
  moreover have "list_all (\<lambda>ev. \<not> is_store_write ev) (evs1 @ evs2)
                   \<longrightarrow> giteaTokensBySub w2 = giteaTokensBySub w"
    using 1 2 by simp
  ultimately have "\<exists>evs. trace w2 = trace w @ evs \<and> list_all P evs
            \<and> (list_all (\<lambda>ev. \<not> is_store_write ev) evs
                 \<longrightarrow> giteaTokensBySub w2 = giteaTokensBySub w)"
    by blast
  then show ?thesis unfolding extends_def using 1 2 by simp
qed

lemma frame_resolve: "frame P (resolve x)"
  by (simp add: frame_def resolve_def extends_refl)

lemma frame_reject: "frame P (reject e)"
  by (simp add: frame_def reject_def extends_refl)

lemma frame_emit: "P ev \<Longrightarrow> frame P (emit ev)"
  by (simp add: frame_def emit_def extends_def)

lemma frame_await: "P ev \<Longrightarrow> frame P (await ev oracle)"
  by (simp add: frame_def await_def Let_def extends_def)

lemma frame_addGiteaToken: "P (AddGiteaToken token) \<Longrightarrow> frame P (addGiteaToken token)"
  by (simp add: frame_def addGiteaToken_def extends_def)

lemma frame_andThen:
  assumes "frame P m" and "\<And>x. frame P (f x)"
  shows "frame P (andThen m f)"
  unfolding frame_def
proof
  fix w
  obtain r w1 where mw: "m w = (r, w1)" by (cases "m w")
  have 1: "extends P w w1" using assms(1) mw unfolding frame_def by (metis snd_conv)
  show "extends P w (snd (andThen m f w))"
  proof (cases r)
    case (Inl e)
    then show ?thesis using 1 by (simp add: andThen_def mw)
  next
    case (Inr x)
    have "extends P w1 (snd (f x w1))" using assms(2)[of x] unfolding frame_def by simp
    with 1 have "extends P w (snd (f x w1))" by (rule extends_trans)
    then show ?thesis using Inr by (simp add: andThen_def mw)
  qed
qed

lemma frame_catch:
  assumes "frame P m" and "\<And>e. frame P (h e)"
  shows "frame P (catch m h)"
  unfolding frame_def
proof
  fix w
  obtain r w1 where mw: "m w = (r, w1)" by (cases "m w")
  have 1: "extends P w w1" using assms(1) mw unfolding frame_def by (metis snd_conv)
  show "extends P w (snd (catch m h w))"
  proof (cases r)
    case (Inr x)
    then show ?thesis using 1 by (simp add: catch_def mw)
  next
    case (Inl e)
    have "extends P w1 (snd (h e w1))" using assms(2)[of e] unfolding frame_def by simp
    with 1 have "extends P w (snd (h e w1))" by (rule extends_trans)
    then show ?thesis using Inl by (simp add: catch_def mw)
  qed
qed

lemma frame_Date_now: "frame P Date_now"
  by (simp add: frame_def Date_now_def extends_refl)

lemma frame_store_giteaTokensBySub: "frame P (store_giteaTokensBySub sub)"
  by (simp add: frame_def store_giteaTokensBySub_def extends_refl)

lemma frame_store_offline: "frame P store_offline"
  by (simp add: frame_def store_offline_def extends_refl)

lemma frame_request:
  "(\<And>r. opt_body r = opt_body options \<Longrightarrow> P (Request r)) \<Longrightarrow>
   frame P (request env accessToken serverUrl options)"
  by (simp add: request_def networkSvc_request_def frame_await)

lemma startOauth2_frame:
  assumes popup: "\<And>u p. \<not> silent \<Longrightarrow> P (OauthPopup u p False)"
      and req: "\<And>r. (is_silent_exchange (Request r) \<longrightarrow> silent) \<Longrightarrow> P (Request r)"
      and info: "\<And>i. P (AddUserInfo i)"
      and tok: "\<And>t. (truthy sub \<longrightarrow> sub = Some (tok_sub t)) \<Longrightarrow> P (AddGiteaToken t)"
  shows "frame P (startOauth2 env serverUrl applicationId applicationSecret sub silent rt)"
proof -
  have exchange: "frame P
       (if \<not> silent then
          andThen
            (networkSvc_startOauth2 env (serverUrl @ ''/login/oauth/authorize'')
               [(''client_id'', Some applicationId),
                (''response_type'', Some ''code''),
                (''redirect_uri'', Some (oauth2RedirectUri env))]
               silent)
            (\<lambda>code.
               networkSvc_request env
                 \<lparr>opt_method = Some ''POST'',
                  opt_url = serverUrl @ ''/login/oauth/access_token'',
                  opt_authorization = None, opt_params = [],
                  opt_body =
                    [(''client_id'', Some applicationId),
                     (''client_secret'', Some applicationSecret),
                     (''code'', code),
                     (''grant_type'', Some ''authorization_code''),
                     (''redirect_uri'', Some (oauth2RedirectUri env))]\<rparr>)
        else
          networkSvc_request env
            \<lparr>opt_method = Some ''POST'',
             opt_url = serverUrl @ ''/login/oauth/access_token'',
             opt_authorization = None, opt_params = [],
             opt_body =
               [(''client_id'', Some applicationId),
                (''client_secret'', Some applicationSecret),
                (''refresh_token'', rt),
                (''grant_type'', Some ''refresh_token''),
                (''redirect_uri'', Some (oauth2RedirectUri env))]\<rparr>)"
  proof (cases silent)
    case True
    then show ?thesis by (simp add: networkSvc_request_def frame_await req)
  next
    case False
    then show ?thesis
      by (auto simp: networkSvc_request_def networkSvc_startOauth2_def
               intro!: frame_andThen frame_await popup req)
  qed
  show ?thesis
    unfolding startOauth2_def Let_def
    apply (rule frame_andThen [OF exchange])
    subgoal for tokenBody
      apply (cases tokenBody)
       apply (simp add: frame_reject)
      apply (simp only: option.case)
      apply (rule frame_andThen)
       apply (rule frame_request)
       apply (rule req)
       apply simp
      subgoal for tb user
        apply (cases user)
         apply (simp add: frame_reject)
        apply (simp only: option.case)
        apply (rule frame_andThen)
         apply (simp add: userSvc_addUserInfo_def frame_emit info)
        apply (simp only: split: if_split)
        apply (intro conjI impI frame_reject frame_andThen frame_Date_now frame_addGiteaToken frame_resolve tok)
        apply auto
        done
      done
    done
qed

lemma startOauth2_no_modal:
  "frame (\<lambda>ev. \<not> is_modal ev) (startOauth2 env serverUrl applicationId applicationSecret sub silent rt)"
  by (rule startOauth2_frame) simp_all

lemma startOauth2_interactive_no_silent_exchange:
  "frame (\<lambda>ev. \<not> is_silent_exchange ev) (startOauth2 env serverUrl applicationId applicationSecret sub False rt)"
  by (rule startOauth2_frame) simp_all

text \<open>With an expected sub, \<^verbatim>\<open>startOauth2\<close> writes no token of another account.\<close>

lemma startOauth2_writes_expected_sub:
  "s \<noteq> [] \<Longrightarrow> frame (\<lambda>ev. \<forall>t. ev = AddGiteaToken t \<longrightarrow> tok_sub t = s) (startOauth2 env serverUrl applicationId applicationSecret (Some s) silent rt)"
  by (rule startOauth2_frame) simp_all

lemma extends_events:
  assumes "extends P w w'"
  shows "trace w' = trace w @ drop (length (trace w)) (trace w')"
    and "list_all P (drop (length (trace w)) (trace w'))"
  using assms unfolding extends_def by auto

lemma frameD: "frame P m \<Longrightarrow> extends P w (snd (m w))"
  by (simp add: frame_def)

lemma frame_events: "frame P m \<Longrightarrow> list_all P (events_of m w)"
  unfolding events_of_def by (rule extends_events(2)) (rule frameD)

lemma events_append:
  assumes "extends P w w1" and "extends Q w1 w2"
  shows "drop (length (trace w)) (trace w2)
           = drop (length (trace w)) (trace w1) @ drop (length (trace w1)) (trace w2)"
proof -
  obtain evs1 where 1: "trace w1 = trace w @ evs1" using assms(1) unfolding extends_def by auto
  obtain evs2 where 2: "trace w2 = trace w1 @ evs2" using assms(2) unfolding extends_def by auto
  show ?thesis by (simp add: 1 2)
qed

text \<open>The prompt followed by the interactive acquisition, as both fallbacks of
  \<^verbatim>\<open>refreshToken\<close> run it.\<close>

lemma prompt_then_interactive:
  fixes w :: world
  shows "andThen (modal_open env ''providerRedirection'' ''Gitea'')
           (\<lambda>_. startOauth2 env serverUrl applicationId applicationSecret sub False None) w
         = (case outcome (modal env (calls w)) of
              Inl e \<Rightarrow> (Inl e, snd (modal_open env ''providerRedirection'' ''Gitea'' w))
            | Inr _ \<Rightarrow>
                startOauth2 env serverUrl applicationId applicationSecret sub False None
                  (snd (modal_open env ''providerRedirection'' ''Gitea'' w)))"
    and "events_of (andThen (modal_open env ''providerRedirection'' ''Gitea'')
           (\<lambda>_. startOauth2 env serverUrl applicationId applicationSecret sub False None)) w
         = ModalOpen ''providerRedirection'' ''Gitea'' #
           (case outcome (modal env (calls w)) of
              Inl e \<Rightarrow> []
            | Inr _ \<Rightarrow>
                events_of (startOauth2 env serverUrl applicationId applicationSecret sub False None)
                  (snd (modal_open env ''providerRedirection'' ''Gitea'' w)))"
proof -
  let ?m = "startOauth2 env serverUrl applicationId applicationSecret sub False None"
  let ?w2 = "snd (modal_open env ''providerRedirection'' ''Gitea'' w)"
  have w2: "?w2 = w\<lparr>now := now w + elapsed (modal env (calls w)), calls := Suc (calls w),
                    trace := trace w @ [ModalOpen ''providerRedirection'' ''Gitea'']\<rparr>"
    by (simp add: modal_open_def await_def Let_def)
  show eq: "andThen (modal_open env ''providerRedirection'' ''Gitea'') (\<lambda>_. ?m) w
         = (case outcome (modal env (calls w)) of Inl e \<Rightarrow> (Inl e, ?w2) | Inr _ \<Rightarrow> ?m ?w2)"
    by (simp add: andThen_def modal_open_def await_def Let_def split: sum.splits)
  have tr: "trace ?w2 = trace w @ [ModalOpen ''providerRedirection'' ''Gitea'']"
    by (simp add: w2)
  have ext: "extends (\<lambda>_. True) w ?w2"
    unfolding w2 by (simp add: extends_def)
  have ext2: "extends (\<lambda>ev. \<not> is_modal ev) ?w2 (snd (?m ?w2))"
    by (rule frameD [OF startOauth2_no_modal])
  show "events_of (andThen (modal_open env ''providerRedirection'' ''Gitea'') (\<lambda>_. ?m)) w
         = ModalOpen ''providerRedirection'' ''Gitea'' #
           (case outcome (modal env (calls w)) of Inl e \<Rightarrow> [] | Inr _ \<Rightarrow> events_of ?m ?w2)"
  proof (cases "outcome (modal env (calls w))")
    case (Inl e)
    then show ?thesis unfolding events_of_def eq by (simp add: tr)
  next
    case (Inr u)
    have "drop (length (trace w)) (trace (snd (?m ?w2)))
            = drop (length (trace w)) (trace ?w2) @ drop (length (trace ?w2)) (trace (snd (?m ?w2)))"
      by (rule events_append [OF ext ext2])
    then show ?thesis unfolding events_of_def eq using Inr by (simp add: tr)
  qed
qed

lemma refreshToken_near_expiry:
  assumes "giteaTokensBySub w (tok_sub token) = Some lastToken"
      and "truthy_num (tok_expiresOn lastToken)"
      and "\<not> js_gt (tok_expiresOn lastToken) (int (now w) + tokenExpirationMargin)"
  shows "refreshToken env token w =
           catch
             (startOauth2 env (tok_serverUrl token) (tok_applicationId token)
                (tok_applicationSecret token) (Some (tok_sub token)) True (tok_refreshToken lastToken))
             (\<lambda>err.
                andThen store_offline
                  (\<lambda>off.
                     if off then reject err
                     else
                       andThen (modal_open env ''providerRedirection'' ''Gitea'')
                         (\<lambda>_. startOauth2 env (tok_serverUrl token) (tok_applicationId token)
                                 (tok_applicationSecret token) (Some (tok_sub token)) False None))) w"
  using assms
  by (simp add: refreshToken_def Let_def andThen_def store_giteaTokensBySub_def Date_now_def)

lemma frame_modal_open: "P (ModalOpen type name) \<Longrightarrow> frame P (modal_open env type name)"
  by (simp add: modal_open_def frame_await)

lemma refreshToken_frame: "frame (\<lambda>_. True) (refreshToken env token)"
  unfolding refreshToken_def Let_def
  apply (rule frame_andThen [OF frame_store_giteaTokensBySub])
  subgoal for stored
    apply (cases stored)
     apply (simp add: frame_reject)
    apply (simp only: option.case split: if_split)
    apply (intro conjI impI frame_andThen frame_modal_open startOauth2_frame TrueI
             frame_Date_now)
    apply (simp only: split: if_split)
    apply (intro conjI impI frame_resolve frame_catch frame_andThen frame_store_offline
             startOauth2_frame TrueI)
    apply (simp only: split: if_split)
    apply (intro conjI impI frame_reject frame_andThen frame_modal_open startOauth2_frame TrueI)
    done
  done

section \<open>Rules for segments\<close>

lemma split_slash_nonempty: "split_slash s \<noteq> []"
  by (induction s) (auto split: list.splits)

lemma split_slash_free: "CHR ''/'' \<notin> set b \<Longrightarrow> split_slash b = [b]"
  by (induction b) auto

lemma split_slash_append:
  "CHR ''/'' \<notin> set a \<Longrightarrow> split_slash (a @ CHR ''/'' # r) = a # split_slash r"
  by (induction a) auto

lemma split_slash_single: "split_slash s = [b] \<Longrightarrow> s = b"
proof (induction s arbitrary: b)
  case Nil
  then show ?case by simp
next
  case (Cons c cs)
  then show ?case
    using split_slash_nonempty [of cs]
    by (auto split: if_splits list.splits)
qed

lemma split_slash_pair: "split_slash t = [a, b] \<Longrightarrow> t = a @ CHR ''/'' # b"
proof (induction t arbitrary: a)
  case Nil
  then show ?case by simp
next
  case (Cons c cs)
  show ?case
  proof (cases "c = CHR ''/''")
    case True
    with Cons.prems have "a = []" "split_slash cs = [b]" by auto
    then show ?thesis using True split_slash_single by auto
  next
    case False
    with Cons.prems obtain x where "split_slash cs = [x, b]" "a = c # x"
      by (auto split: list.splits)
    then show ?thesis using Cons.IH by auto
  qed
qed

lemma split_slash_segments: "x \<in> set (split_slash t) \<Longrightarrow> CHR ''/'' \<notin> set x"
proof (induction t arbitrary: x)
  case Nil
  then show ?case by simp
next
  case (Cons c cs)
  then show ?case
    by (auto split: if_splits list.splits)
qed

lemma two_segments_iff:
  "two_segments t \<longleftrightarrow> (\<exists>a b. split_slash t = [a, b] \<and> a \<noteq> [] \<and> b \<noteq> [])"
proof
  assume "two_segments t"
  then obtain k where k: "k < length t" "non_slash_plus (take k t)" "t ! k = CHR ''/''"
      "non_slash_plus (drop (Suc k) t)"
    by (auto simp: two_segments_def list_ex_iff)
  have t: "t = take k t @ CHR ''/'' # drop (Suc k) t"
    using k(1,3) id_take_nth_drop by fastforce
  have free: "CHR ''/'' \<notin> set (take k t)" "CHR ''/'' \<notin> set (drop (Suc k) t)"
    using k(2,4) by (auto simp: non_slash_plus_def list_all_iff)
  have "split_slash (take k t @ CHR ''/'' # drop (Suc k) t) = [take k t, drop (Suc k) t]"
    by (simp add: split_slash_append [OF free(1)] split_slash_free [OF free(2)])
  then show "\<exists>a b. split_slash t = [a, b] \<and> a \<noteq> [] \<and> b \<noteq> []"
    using k(2,4) t by (metis non_slash_plus_def)
next
  assume "\<exists>a b. split_slash t = [a, b] \<and> a \<noteq> [] \<and> b \<noteq> []"
  then obtain a b where ab: "split_slash t = [a, b]" "a \<noteq> []" "b \<noteq> []" by blast
  then have t: "t = a @ CHR ''/'' # b" by (simp add: split_slash_pair)
  have free: "CHR ''/'' \<notin> set a" "CHR ''/'' \<notin> set b"
    using split_slash_segments [of a t] split_slash_segments [of b t] ab(1) by auto
  have "length a < length t" using t by simp
  moreover have "non_slash_plus (take (length a) t)"
    using t ab(2) free(1) by (auto simp: non_slash_plus_def list_all_iff)
  moreover have "t ! length a = CHR ''/''" using t by (metis nth_append_length)
  moreover have "non_slash_plus (drop (Suc (length a)) t)"
    using t ab(3) free(2) by (auto simp: non_slash_plus_def list_all_iff)
  ultimately show "two_segments t"
    unfolding two_segments_def list_ex_iff by (metis atLeastLessThan_iff set_upt zero_le)
qed

lemma match_repoFullName_segments: "match_repoFullName path = segments_id path"
proof (induction path)
  case Nil
  then show ?case by (simp add: segments_id_def)
next
  case (Cons c cs)
  show ?case
  proof (cases "two_segments (c # cs)")
    case True
    then obtain a b where ab: "split_slash (c # cs) = [a, b]" "a \<noteq> []" "b \<noteq> []"
      unfolding two_segments_iff by blast
    then have "c # cs = a @ CHR ''/'' # b" by (simp add: split_slash_pair)
    moreover have "match_repoFullName (c # cs) = Some (c # cs)" using True by simp
    moreover have "segments_id (c # cs) = Some (a @ CHR ''/'' # b)"
      unfolding segments_id_def ab(1) using ab(2,3) by simp
    ultimately show ?thesis by simp
  next
    case False
    then have m: "match_repoFullName (c # cs) = segments_id cs" using Cons.IH by simp
    obtain x xs where xs: "split_slash cs = x # xs"
      using split_slash_nonempty [of cs] by (cases "split_slash cs") auto
    have "segments_id (c # cs) = segments_id cs"
    proof (cases "c = CHR ''/''")
      case True
      then show ?thesis
        using xs by (cases xs) (auto simp: segments_id_def)
    next
      case c: False
      show ?thesis
      proof (cases xs)
        case Nil
        then show ?thesis using xs c by (simp add: segments_id_def)
      next
        case (Cons b rest)
        show ?thesis
        proof (cases rest)
          case Nil
          have "b = []"
          proof (rule ccontr)
            assume "b \<noteq> []"
            then have "two_segments (c # cs)"
              unfolding two_segments_iff using xs c Cons Nil by auto
            with False show False by simp
          qed
          then show ?thesis using xs c Cons Nil by (simp add: segments_id_def)
        next
          case (Cons b' rest')
          then show ?thesis using xs c \<open>xs = b # rest\<close> by (simp add: segments_id_def)
        qed
      qed
    qed
    with m show ?thesis by simp
  qed
qed

section \<open>The refresh decision\<close>

text \<open>
  C1.  When the stored token's \<^verbatim>\<open>expiresOn\<close> is later than the current time plus the margin
  of five minutes (300000 ms), \<^verbatim>\<open>refreshToken\<close> resolves to the stored token and leaves the
  world as it was: the log of events and the count of awaited promises are unchanged, so no
  OAuth2 exchange and no HTTP request was issued.
\<close>

theorem refreshToken_valid_unchanged:
  assumes "giteaTokensBySub w (tok_sub token) = Some lastToken"
      and "tok_expiresOn lastToken = Some (Num e)"
      and "int (now w) + 5 * 60 * 1000 < e"
  shows "refreshToken env token w = (Inr lastToken, w)
       \<and> events_of (refreshToken env token) w = []"
  using assms
  by (simp add: refreshToken_def Let_def tokenExpirationMargin_def andThen_def
        store_giteaTokensBySub_def Date_now_def resolve_def events_of_def)

theorem refreshToken_valid_unchanged_witness:
  "giteaTokensBySub (alice_world (Some (Num 2000000)) False) (tok_sub (alice_token None))
     = Some (alice_token (Some (Num 2000000)))
   \<and> int (now (alice_world (Some (Num 2000000)) False)) + 5 * 60 * 1000 < 2000000
   \<and> refreshToken (failing_env None) (alice_token None) (alice_world (Some (Num 2000000)) False)
     = (Inr (alice_token (Some (Num 2000000))), alice_world (Some (Num 2000000)) False)
   \<and> events_of (refreshToken (failing_env None) (alice_token None))
       (alice_world (Some (Num 2000000)) False) = []"
  using refreshToken_valid_unchanged
          [where w = "alice_world (Some (Num 2000000)) False" and token = "alice_token None"
             and lastToken = "alice_token (Some (Num 2000000))" and e = 2000000
             and env = "failing_env None"]
  by (simp add: alice_world_def alice_token_def alice_sub_def)

text \<open>
  C2, as amended.  When the stored token has no \<^verbatim>\<open>expiresOn\<close>, \<^verbatim>\<open>refreshToken\<close> first opens
  the prompt (modal \<^verbatim>\<open>providerRedirection\<close>, name \<^verbatim>\<open>Gitea\<close>).  When the prompt resolves it
  runs \<^verbatim>\<open>startOauth2\<close> for the same sub with \<^verbatim>\<open>silent = false\<close> and no refresh token, and
  its result is the result of that run; when the prompt rejects it rejects with that error
  and \<^verbatim>\<open>startOauth2\<close> is not called.  In both cases no event of the run is a silent
  refresh-token exchange.
\<close>

theorem refreshToken_legacy_prompts_first:
  assumes "giteaTokensBySub w (tok_sub token) = Some lastToken"
      and "tok_expiresOn lastToken = None"
  shows "refreshToken env token w =
           (case outcome (modal env (calls w)) of
              Inl e \<Rightarrow> (Inl e, snd (modal_open env ''providerRedirection'' ''Gitea'' w))
            | Inr _ \<Rightarrow>
                startOauth2 env (tok_serverUrl token) (tok_applicationId token)
                  (tok_applicationSecret token) (Some (tok_sub token)) False None
                  (snd (modal_open env ''providerRedirection'' ''Gitea'' w)))
       \<and> events_of (refreshToken env token) w =
           ModalOpen ''providerRedirection'' ''Gitea'' #
           (case outcome (modal env (calls w)) of
              Inl e \<Rightarrow> []
            | Inr _ \<Rightarrow>
                events_of
                  (startOauth2 env (tok_serverUrl token) (tok_applicationId token)
                     (tok_applicationSecret token) (Some (tok_sub token)) False None)
                  (snd (modal_open env ''providerRedirection'' ''Gitea'' w)))
       \<and> list_all (\<lambda>ev. \<not> is_silent_exchange ev) (events_of (refreshToken env token) w)"
proof -
  let ?inter = "startOauth2 env (tok_serverUrl token) (tok_applicationId token)
             (tok_applicationSecret token) (Some (tok_sub token)) False None"
  let ?fallback = "andThen (modal_open env ''providerRedirection'' ''Gitea'') (\<lambda>_. ?inter)"
  let ?w2 = "snd (modal_open env ''providerRedirection'' ''Gitea'' w)"
  have r: "refreshToken env token w = ?fallback w"
    using assms by (simp add: refreshToken_def Let_def andThen_def store_giteaTokensBySub_def)
  then have ev: "events_of (refreshToken env token) w = events_of ?fallback w"
    by (simp add: events_of_def)
  have "list_all (\<lambda>ev. \<not> is_silent_exchange ev) (events_of ?inter ?w2)"
    by (rule frame_events [OF startOauth2_interactive_no_silent_exchange])
  then have "list_all (\<lambda>ev. \<not> is_silent_exchange ev) (events_of ?fallback w)"
    unfolding prompt_then_interactive(2) by (simp split: sum.splits)
  then show ?thesis
    using r ev by (simp add: prompt_then_interactive)
qed

theorem refreshToken_legacy_prompts_first_witness:
  "giteaTokensBySub (alice_world None False) (tok_sub (alice_token (Some (Num 5))))
     = Some (alice_token None)
   \<and> tok_expiresOn (alice_token None) = None
   \<and> map is_popup (events_of (refreshToken (online_env (Some 3600) ''alice'') (alice_token (Some (Num 5))))
                     (alice_world None False))
       = [False, True, False, False, False, False]
   \<and> list_all (\<lambda>ev. \<not> is_silent_exchange ev)
        (events_of (refreshToken (online_env (Some 3600) ''alice'') (alice_token (Some (Num 5))))
           (alice_world None False))"
  using refreshToken_legacy_prompts_first
          [where w = "alice_world None False" and token = "alice_token (Some (Num 5))"
             and lastToken = "alice_token None" and env = "online_env (Some 3600) ''alice''"]
  by (simp add: example_defs startOauth2_def refreshToken_def io_defs events_of_def Let_def subPrefix_def)

text \<open>
  C2 as stated says the interactive re-authorization is always performed.  It is not when
  the user dismisses the prompt: the stored token has no \<^verbatim>\<open>expiresOn\<close>, the promise of the
  modal rejects, \<^verbatim>\<open>refreshToken\<close> rejects with that error and the prompt is the only event:
  no popup and no request, so \<^verbatim>\<open>startOauth2\<close> did not run.
\<close>

theorem refreshToken_legacy_dismissed_counterexample:
  "giteaTokensBySub (alice_world None False) (tok_sub (alice_token None)) = Some (alice_token None)
   \<and> tok_expiresOn (alice_token None) = None
   \<and> fst (refreshToken dismissing_env (alice_token None) (alice_world None False))
       = Inl (Rejected None)
   \<and> events_of (refreshToken dismissing_env (alice_token None)) (alice_world None False)
       = [ModalOpen ''providerRedirection'' ''Gitea'']
   \<and> \<not> list_ex is_popup
         (events_of (refreshToken dismissing_env (alice_token None)) (alice_world None False))"
  by (simp add: example_defs refreshToken_def io_defs events_of_def Let_def)

text \<open>
  C4.  The stored token is near or past expiry and the silent attempt
  (\<^verbatim>\<open>startOauth2\<close> with \<^verbatim>\<open>silent = true\<close> and the stored refresh token) rejects with \<open>err\<close>,
  leaving the world \<open>w'\<close>.  When the offline flag is set there, \<^verbatim>\<open>refreshToken\<close> rejects with
  \<open>err\<close> in that same world: nothing happens after the failed attempt, and no event of the
  run is a prompt of the modal or an interactive popup.
\<close>

theorem refreshToken_offline_rejects:
  assumes "giteaTokensBySub w (tok_sub token) = Some lastToken"
      and "truthy_num (tok_expiresOn lastToken)"
      and "\<not> js_gt (tok_expiresOn lastToken) (int (now w) + tokenExpirationMargin)"
      and "startOauth2 env (tok_serverUrl token) (tok_applicationId token)
             (tok_applicationSecret token) (Some (tok_sub token)) True (tok_refreshToken lastToken) w
           = (Inl err, w')"
      and "offline w'"
  shows "refreshToken env token w = (Inl err, w')
       \<and> list_all (\<lambda>ev. \<not> is_modal ev \<and> \<not> is_popup ev) (events_of (refreshToken env token) w)"
proof -
  let ?silent = "startOauth2 env (tok_serverUrl token) (tok_applicationId token)
             (tok_applicationSecret token) (Some (tok_sub token)) True (tok_refreshToken lastToken)"
  have r: "refreshToken env token w = (Inl err, w')"
    unfolding refreshToken_near_expiry [OF assms(1-3)]
    using assms(4,5) by (simp add: catch_def andThen_def store_offline_def reject_def)
  have "frame (\<lambda>ev. \<not> is_modal ev \<and> \<not> is_popup ev) ?silent"
    by (rule startOauth2_frame) simp_all
  then have "list_all (\<lambda>ev. \<not> is_modal ev \<and> \<not> is_popup ev) (events_of ?silent w)"
    by (rule frame_events)
  moreover have "events_of (refreshToken env token) w = events_of ?silent w"
    by (simp add: events_of_def r assms(4))
  ultimately show ?thesis using r by simp
qed

theorem refreshToken_offline_rejects_witness:
  "giteaTokensBySub (alice_world (Some (Num 999000)) True) (tok_sub (alice_token None))
     = Some (alice_token (Some (Num 999000)))
   \<and> fst (startOauth2 (failing_env (Some 503)) ''https://git.example.com'' ''app'' ''secret''
            (Some alice_sub) True (Some ''r1'') (alice_world (Some (Num 999000)) True))
       = Inl (Rejected (Some 503))
   \<and> fst (refreshToken (failing_env (Some 503)) (alice_token None)
            (alice_world (Some (Num 999000)) True))
       = Inl (Rejected (Some 503))
   \<and> length (events_of (refreshToken (failing_env (Some 503)) (alice_token None))
               (alice_world (Some (Num 999000)) True)) = 1
   \<and> list_all (\<lambda>ev. \<not> is_modal ev \<and> \<not> is_popup ev)
        (events_of (refreshToken (failing_env (Some 503)) (alice_token None))
           (alice_world (Some (Num 999000)) True))"
  using refreshToken_offline_rejects
          [where w = "alice_world (Some (Num 999000)) True" and token = "alice_token None"
             and lastToken = "alice_token (Some (Num 999000))" and env = "failing_env (Some 503)"
             and err = "Rejected (Some 503)"
             and w' = "snd (startOauth2 (failing_env (Some 503)) ''https://git.example.com''
                         ''app'' ''secret'' (Some alice_sub) True (Some ''r1'')
                         (alice_world (Some (Num 999000)) True))"]
  by (simp add: example_defs startOauth2_def io_defs events_of_def tokenExpirationMargin_def Let_def)

text \<open>
  C5.  The same silent attempt rejects while the offline flag is not set.  Then
  \<^verbatim>\<open>refreshToken\<close> opens the prompt (modal \<^verbatim>\<open>providerRedirection\<close>, name \<^verbatim>\<open>Gitea\<close>) once: the
  events of the run are those of the silent attempt, none of them a prompt or a popup, then
  the prompt, then, only when the prompt resolved, the events of the interactive
  \<^verbatim>\<open>startOauth2\<close> for the same sub, none of them a prompt.  When the prompt rejects,
  \<^verbatim>\<open>refreshToken\<close> rejects with its error and the prompt is the last event.
\<close>

theorem refreshToken_online_prompts_once:
  assumes "giteaTokensBySub w (tok_sub token) = Some lastToken"
      and "truthy_num (tok_expiresOn lastToken)"
      and "\<not> js_gt (tok_expiresOn lastToken) (int (now w) + tokenExpirationMargin)"
      and "startOauth2 env (tok_serverUrl token) (tok_applicationId token)
             (tok_applicationSecret token) (Some (tok_sub token)) True (tok_refreshToken lastToken) w
           = (Inl err, w')"
      and "\<not> offline w'"
  shows "refreshToken env token w =
           (case outcome (modal env (calls w')) of
              Inl e \<Rightarrow> (Inl e, snd (modal_open env ''providerRedirection'' ''Gitea'' w'))
            | Inr _ \<Rightarrow>
                startOauth2 env (tok_serverUrl token) (tok_applicationId token)
                  (tok_applicationSecret token) (Some (tok_sub token)) False None
                  (snd (modal_open env ''providerRedirection'' ''Gitea'' w')))
       \<and> events_of (refreshToken env token) w =
           drop (length (trace w)) (trace w') @
           ModalOpen ''providerRedirection'' ''Gitea'' #
           (case outcome (modal env (calls w')) of
              Inl e \<Rightarrow> []
            | Inr _ \<Rightarrow>
                events_of
                  (startOauth2 env (tok_serverUrl token) (tok_applicationId token)
                     (tok_applicationSecret token) (Some (tok_sub token)) False None)
                  (snd (modal_open env ''providerRedirection'' ''Gitea'' w')))
       \<and> list_all (\<lambda>ev. \<not> is_modal ev \<and> \<not> is_popup ev) (drop (length (trace w)) (trace w'))
       \<and> filter is_modal (events_of (refreshToken env token) w)
           = [ModalOpen ''providerRedirection'' ''Gitea'']"
proof -
  let ?silent = "startOauth2 env (tok_serverUrl token) (tok_applicationId token)
             (tok_applicationSecret token) (Some (tok_sub token)) True (tok_refreshToken lastToken)"
  let ?inter = "startOauth2 env (tok_serverUrl token) (tok_applicationId token)
             (tok_applicationSecret token) (Some (tok_sub token)) False None"
  let ?fallback = "andThen (modal_open env ''providerRedirection'' ''Gitea'') (\<lambda>_. ?inter)"
  let ?w2 = "snd (modal_open env ''providerRedirection'' ''Gitea'' w')"
  let ?M = "ModalOpen ''providerRedirection'' ''Gitea''"
  have r: "refreshToken env token w = ?fallback w'"
    unfolding refreshToken_near_expiry [OF assms(1-3)]
    using assms(4,5) by (simp add: catch_def andThen_def store_offline_def)
  have fr: "frame (\<lambda>ev. \<not> is_modal ev \<and> \<not> is_popup ev) ?silent"
    by (rule startOauth2_frame) simp_all
  have ext1: "extends (\<lambda>ev. \<not> is_modal ev \<and> \<not> is_popup ev) w w'"
    using frameD [OF fr, of w] by (simp add: assms(4))
  have fb: "frame (\<lambda>_. True) ?fallback"
    by (intro frame_andThen frame_await startOauth2_frame) (simp_all add: modal_open_def frame_await)
  have ext2: "extends (\<lambda>_. True) w' (snd (?fallback w'))"
    by (rule frameD [OF fb])
  have ev: "events_of (refreshToken env token) w
              = drop (length (trace w)) (trace w') @ events_of ?fallback w'"
    unfolding events_of_def r by (rule events_append [OF ext1 ext2])
  have silent_events: "list_all (\<lambda>ev. \<not> is_modal ev \<and> \<not> is_popup ev) (drop (length (trace w)) (trace w'))"
    by (rule extends_events(2) [OF ext1])
  have inter_events: "list_all (\<lambda>ev. \<not> is_modal ev) (events_of ?inter ?w2)"
    by (rule frame_events [OF startOauth2_no_modal])
  have tail: "filter is_modal (case outcome (modal env (calls w')) of
              Inl e \<Rightarrow> [] | Inr _ \<Rightarrow> events_of ?inter ?w2) = []"
    using inter_events by (auto simp: list_all_iff filter_empty_conv split: sum.splits)
  have "filter is_modal (drop (length (trace w)) (trace w')) = []"
    using silent_events by (auto simp: list_all_iff filter_empty_conv)
  then have one: "filter is_modal (events_of (refreshToken env token) w) = [?M]"
    unfolding ev prompt_then_interactive(2) using tail by simp
  show ?thesis
    using r ev silent_events one by (simp add: prompt_then_interactive)
qed

theorem refreshToken_online_prompts_once_witness:
  "giteaTokensBySub (alice_world (Some (Num 999000)) False) (tok_sub (alice_token None))
     = Some (alice_token (Some (Num 999000)))
   \<and> fst (startOauth2 flaky_env ''https://git.example.com'' ''app'' ''secret''
            (Some alice_sub) True (Some ''r1'') (alice_world (Some (Num 999000)) False))
       = Inl (Rejected (Some 401))
   \<and> filter is_modal (events_of (refreshToken flaky_env (alice_token None))
                        (alice_world (Some (Num 999000)) False))
       = [ModalOpen ''providerRedirection'' ''Gitea'']
   \<and> map is_popup (events_of (refreshToken flaky_env (alice_token None))
                        (alice_world (Some (Num 999000)) False))
       = [False, False, True, False, False, False, False]"
  using refreshToken_online_prompts_once
          [where w = "alice_world (Some (Num 999000)) False" and token = "alice_token None"
             and lastToken = "alice_token (Some (Num 999000))" and env = flaky_env
             and err = "Rejected (Some 401)"
             and w' = "snd (startOauth2 flaky_env ''https://git.example.com''
                         ''app'' ''secret'' (Some alice_sub) True (Some ''r1'')
                         (alice_world (Some (Num 999000)) False))"]
  by (simp add: example_defs startOauth2_def io_defs events_of_def tokenExpirationMargin_def Let_def subPrefix_def)

section \<open>Acquisition\<close>

text \<open>
  C3.  The caller passes the expected sub \<open>s\<close> (a non-empty string, so that \<^verbatim>\<open>sub &&\<close> is
  truthy).  The popup, when the flow is interactive, returns a code; the token endpoint
  answers with the body \<open>tb\<close> and the current-user endpoint with the user \<open>u\<close>.  When the
  sub resolved from \<open>u\<close> differs from \<open>s\<close>, \<^verbatim>\<open>startOauth2\<close> rejects with the error
  \<^verbatim>\<open>Gitea account ID not expected.\<close>, the Token Store is as it was and no event of the run is
  a dispatch of \<^verbatim>\<open>data/addGiteaToken\<close>.
\<close>

theorem startOauth2_identity_mismatch:
  assumes "s \<noteq> []"
      and "\<not> silent \<longrightarrow> (\<exists>code. outcome (popup env (calls w)) = Inr code)"
      and "outcome (http env (if silent then calls w else Suc (calls w))) = Inr (Some tb)"
      and "outcome (http env (if silent then Suc (calls w) else Suc (Suc (calls w)))) = Inr (Some u)"
      and "serverUrl @ ''/'' @ tmpl (body_username u) \<noteq> s"
  shows "fst (startOauth2 env serverUrl applicationId applicationSecret (Some s) silent rt w)
           = Inl (Error ''Gitea account ID not expected.'')
       \<and> giteaTokensBySub
           (snd (startOauth2 env serverUrl applicationId applicationSecret (Some s) silent rt w))
           = giteaTokensBySub w
       \<and> list_all (\<lambda>ev. \<not> is_store_write ev)
           (events_of (startOauth2 env serverUrl applicationId applicationSecret (Some s) silent rt) w)"
proof (cases silent)
  case True
  then show ?thesis
    using assms
    by (simp add: startOauth2_def io_defs events_of_def Let_def)
next
  case False
  then obtain code where "outcome (popup env (calls w)) = Inr code" using assms(2) by auto
  then show ?thesis
    using assms False
    by (simp add: startOauth2_def io_defs events_of_def Let_def)
qed

theorem startOauth2_identity_mismatch_witness:
  "alice_sub \<noteq> []
   \<and> ''https://git.example.com'' @ ''/'' @ tmpl (body_username (gitea_body (Some 3600) ''mallory''))
       \<noteq> alice_sub
   \<and> fst (startOauth2 (online_env (Some 3600) ''mallory'') ''https://git.example.com'' ''app''
            ''secret'' (Some alice_sub) False None (alice_world None False))
       = Inl (Error ''Gitea account ID not expected.'')
   \<and> giteaTokensBySub
        (snd (startOauth2 (online_env (Some 3600) ''mallory'') ''https://git.example.com'' ''app''
               ''secret'' (Some alice_sub) False None (alice_world None False)))
       = giteaTokensBySub (alice_world None False)"
  using startOauth2_identity_mismatch
          [where s = alice_sub and silent = False and env = "online_env (Some 3600) ''mallory''"
             and w = "alice_world None False" and tb = "gitea_body (Some 3600) ''mallory''"
             and u = "gitea_body (Some 3600) ''mallory''"
             and serverUrl = "''https://git.example.com''" and applicationId = "''app''"
             and applicationSecret = "''secret''" and rt = None]
  by (simp add: example_defs)

text \<open>
  C6, as amended.  After a successful \<^verbatim>\<open>startOauth2\<close> the Token Store holds the returned
  token under its sub, and its \<^verbatim>\<open>expiresOn\<close> is later than the current time exactly when
  the token endpoint's response \<open>tb\<close> carries a positive \<^verbatim>\<open>expires_in\<close>.  The value of
  \<^verbatim>\<open>expiresOn\<close> is \<^verbatim>\<open>NaN\<close> when the response has no \<^verbatim>\<open>expires_in\<close>; it is the current time
  plus 1000 times \<^verbatim>\<open>expires_in\<close> when the current time, the product and the sum are safe
  integers, the range in which the doubles of the code compute exactly.
\<close>

theorem startOauth2_expiresOn:
  assumes "startOauth2 env serverUrl applicationId applicationSecret sub silent rt w = (Inr t, w')"
      and "outcome (http env (if silent then calls w else Suc (calls w))) = Inr (Some tb)"
  shows "giteaTokensBySub w' (tok_sub t) = Some t
       \<and> js_gt (tok_expiresOn t) (int (now w'))
           = (case body_expires_in tb of None \<Rightarrow> False | Some n \<Rightarrow> 0 < n)
       \<and> (case body_expires_in tb of
             None \<Rightarrow> tok_expiresOn t = Some NaN
           | Some n \<Rightarrow>
               isSafeInteger (int (now w')) \<and> isSafeInteger (n * 1000)
                 \<and> isSafeInteger (int (now w') + n * 1000)
               \<longrightarrow> tok_expiresOn t = Some (Num (int (now w') + n * 1000)))"
proof (cases silent)
  case True
  then show ?thesis
    using assms
    by (auto simp: startOauth2_def io_defs Let_def split: sum.splits option.splits if_splits)
next
  case False
  then show ?thesis
    using assms
    by (auto simp: startOauth2_def io_defs Let_def split: sum.splits option.splits if_splits)
qed

theorem startOauth2_expiresOn_witness:
  "fst (startOauth2 (online_env (Some 3600) ''alice'') ''https://git.example.com'' ''app''
            ''secret'' None False None (alice_world None False))
     = Inr \<lparr>tok_accessToken = Some ''a2'', tok_name = Some ''alice'', tok_applicationId = ''app'',
           tok_applicationSecret = ''secret'', tok_refreshToken = Some ''r2'',
           tok_expiresOn = Some (Num 4600060),
           tok_serverUrl = ''https://git.example.com'', tok_sub = alice_sub\<rparr>
   \<and> now (snd (startOauth2 (online_env (Some 3600) ''alice'') ''https://git.example.com'' ''app''
            ''secret'' None False None (alice_world None False))) = 1000060
   \<and> isSafeInteger 1000060 \<and> isSafeInteger (3600 * 1000) \<and> isSafeInteger (1000060 + 3600 * 1000)
   \<and> js_gt (Some (Num 4600060)) 1000060"
  using startOauth2_expiresOn
          [where env = "online_env (Some 3600) ''alice''" and serverUrl = "''https://git.example.com''"
             and applicationId = "''app''" and applicationSecret = "''secret''" and sub = None
             and silent = False and rt = None and w = "alice_world None False"
             and tb = "gitea_body (Some 3600) ''alice''"
             and t = "\<lparr>tok_accessToken = Some ''a2'', tok_name = Some ''alice'', tok_applicationId = ''app'',
           tok_applicationSecret = ''secret'', tok_refreshToken = Some ''r2'',
           tok_expiresOn = Some (Num 4600060),
           tok_serverUrl = ''https://git.example.com'', tok_sub = alice_sub\<rparr>"
             and w' = "snd (startOauth2 (online_env (Some 3600) ''alice'') ''https://git.example.com'' ''app''
            ''secret'' None False None (alice_world None False))"]
  by (simp add: example_defs startOauth2_def io_defs Let_def subPrefix_def isSafeInteger_def)

text \<open>
  C6 as stated fails when the token endpoint answers \<^verbatim>\<open>expires_in: 0\<close>: the silent
  acquisition succeeds at time 1000040, and the token it returns and stores has
  \<^verbatim>\<open>expiresOn = 1000040\<close>, which is not later than the current time.
\<close>

theorem startOauth2_expiresOn_counterexample:
  "fst (startOauth2 (online_env (Some 0) ''alice'') ''https://git.example.com'' ''app''
            ''secret'' (Some alice_sub) True (Some ''r1'') (alice_world (Some (Num 999000)) False))
     = Inr \<lparr>tok_accessToken = Some ''a2'', tok_name = Some ''alice'', tok_applicationId = ''app'',
           tok_applicationSecret = ''secret'', tok_refreshToken = Some ''r2'',
           tok_expiresOn = Some (Num 1000040),
           tok_serverUrl = ''https://git.example.com'', tok_sub = alice_sub\<rparr>
   \<and> now (snd (startOauth2 (online_env (Some 0) ''alice'') ''https://git.example.com'' ''app''
            ''secret'' (Some alice_sub) True (Some ''r1'') (alice_world (Some (Num 999000)) False)))
     = 1000040
   \<and> giteaTokensBySub
        (snd (startOauth2 (online_env (Some 0) ''alice'') ''https://git.example.com'' ''app''
            ''secret'' (Some alice_sub) True (Some ''r1'') (alice_world (Some (Num 999000)) False)))
        alice_sub
     = Some \<lparr>tok_accessToken = Some ''a2'', tok_name = Some ''alice'', tok_applicationId = ''app'',
           tok_applicationSecret = ''secret'', tok_refreshToken = Some ''r2'',
           tok_expiresOn = Some (Num 1000040),
           tok_serverUrl = ''https://git.example.com'', tok_sub = alice_sub\<rparr>
   \<and> \<not> js_gt (Some (Num 1000040)) 1000040"
  by (simp add: example_defs startOauth2_def io_defs Let_def subPrefix_def)

section \<open>The identity resolver\<close>

text \<open>
  C8.  When the profile lookup rejects with \<open>err\<close>, the resolver rejects: with \<open>err\<close> itself
  when the lookup was issued and \<^verbatim>\<open>err.status\<close> is 404, and with \<^verbatim>\<open>new Error('RETRY')\<close> in
  every other case.  It never resolves.
\<close>

theorem giteaInfoResolver_failure:
  assumes "outcome (http env (calls w)) = Inl err"
  shows "fst (giteaInfoResolver env sub w)
           = (if match_sub sub \<noteq> None \<and> status err = Some 404 then Inl err
              else Inl (Error ''RETRY''))"
  using assms
  by (auto simp: giteaInfoResolver_def io_defs Let_def split: option.splits prod.splits)

theorem giteaInfoResolver_failure_witness:
  "fst (giteaInfoResolver (failing_env (Some 404)) alice_sub (alice_world None False))
     = Inl (Rejected (Some 404))
   \<and> fst (giteaInfoResolver (failing_env (Some 503)) alice_sub (alice_world None False))
     = Inl (Error ''RETRY'')
   \<and> fst (giteaInfoResolver (failing_env None) alice_sub (alice_world None False))
     = Inl (Error ''RETRY'')"
proof -
  have m: "match_sub alice_sub = Some (''https://git.example.com'', ''alice'')"
    by (simp add: match_sub_def alice_sub_def dot_plus_def non_slash_plus_def
          line_terminator_def upt_rec)
  show ?thesis
    using giteaInfoResolver_failure
            [where env = "failing_env (Some 404)" and w = "alice_world None False"
               and err = "Rejected (Some 404)" and sub = alice_sub]
          giteaInfoResolver_failure
            [where env = "failing_env (Some 503)" and w = "alice_world None False"
               and err = "Rejected (Some 503)" and sub = alice_sub]
          giteaInfoResolver_failure
            [where env = "failing_env None" and w = "alice_world None False"
               and err = "Rejected None" and sub = alice_sub]
    by (simp add: m failing_env_def example_env_def failed_def)
qed

section \<open>The operations\<close>

text \<open>
  C7.  When \<^verbatim>\<open>refreshToken\<close> resolves and the settings hold the commit message template,
  \<^verbatim>\<open>uploadFile\<close> issues one request after the events of the refresh.  Its method is
  \<^verbatim>\<open>POST\<close> when \<^verbatim>\<open>sha\<close> is unset (\<open>truthy None\<close> is false) and \<^verbatim>\<open>PUT\<close> when \<^verbatim>\<open>sha\<close> is set
  (a non-empty string), and the \<^verbatim>\<open>sha\<close> of its body is the \<^verbatim>\<open>sha\<close> passed in.
\<close>

theorem uploadFile_create_or_update:
  assumes "refreshToken env token w = (Inr refreshedToken, w1)"
      and "gitSettings w1 (if truthy sha then ''updateFileMessage'' else ''createFileMessage'')
             = Some template"
  shows "events_of (uploadFile env token projectId branch path content sha) w =
           events_of (refreshToken env token) w @
           [Request
              \<lparr>opt_method = Some (if truthy sha then ''PUT'' else ''POST''),
               opt_url = tok_serverUrl refreshedToken @ ''/api/v1/'' @ ''repos/'' @ projectId
                           @ ''/contents/'' @ encodeURIComponent env path,
               opt_authorization = Some (''Bearer '' @ tmpl (tok_accessToken refreshedToken)),
               opt_params = [],
               opt_body =
                 [(''message'', Some (replace_path [] template path)),
                  (''content'', Some (encodeBase64 env content)),
                  (''sha'', sha),
                  (''branch'', Some branch)]\<rparr>]"
proof -
  have ext: "extends (\<lambda>_. True) w w1"
    using frameD [OF refreshToken_frame [where env = env and token = token], where w = w]
      assms(1)
    by simp
  then obtain evs where tr: "trace w1 = trace w @ evs"
    unfolding extends_def by auto
  show ?thesis
    using assms
    by (simp add: uploadFile_def getCommitMessage_def io_defs events_of_def tr Let_def
          del: replace_path.simps)
qed

theorem uploadFile_create_or_update_witness:
  "map (\<lambda>ev. case ev of Request r \<Rightarrow> (opt_method r, map_of (opt_body r) ''sha'') | _ \<Rightarrow> (None, None))
     (events_of (uploadFile (online_env (Some 3600) ''alice'') (alice_token None) ''alice/notes''
                  ''master'' ''a.md'' ''hello'' None)
        (alice_world (Some (Num 2000000)) False))
     = [(Some ''POST'', Some None)]
   \<and> map (\<lambda>ev. case ev of Request r \<Rightarrow> (opt_method r, map_of (opt_body r) ''sha'') | _ \<Rightarrow> (None, None))
     (events_of (uploadFile (online_env (Some 3600) ''alice'') (alice_token None) ''alice/notes''
                  ''master'' ''a.md'' ''hello'' (Some ''h1''))
        (alice_world (Some (Num 2000000)) False))
     = [(Some ''PUT'', Some (Some ''h1''))]"
proof -
  have r: "refreshToken (online_env (Some 3600) ''alice'') (alice_token None)
             (alice_world (Some (Num 2000000)) False)
           = (Inr (alice_token (Some (Num 2000000))), alice_world (Some (Num 2000000)) False)"
    by (simp add: refreshToken_def io_defs Let_def alice_world_def alice_token_def alice_sub_def
          tokenExpirationMargin_def)
  have e: "events_of (refreshToken (online_env (Some 3600) ''alice'') (alice_token None))
             (alice_world (Some (Num 2000000)) False) = []"
    by (simp add: events_of_def r)
  show ?thesis
    using uploadFile_create_or_update
            [OF r, where sha = None and template = "''{{path}} created''"
               and projectId = "''alice/notes''" and branch = "''master''" and path = "''a.md''"
               and content = "''hello''"]
          uploadFile_create_or_update
            [OF r, where sha = "Some ''h1''" and template = "''{{path}} updated''"
               and projectId = "''alice/notes''" and branch = "''master''" and path = "''a.md''"
               and content = "''hello''"]
    unfolding e by (simp add: alice_world_def)
qed

text \<open>
  C9, as amended.  \<^verbatim>\<open>getProjectId\<close> returns \<^verbatim>\<open>projectId\<close> when it is a non-empty string.
  Otherwise, when \<^verbatim>\<open>projectPath\<close> ends with two non-empty segments, it returns them joined
  by a slash, and when it does not (fewer than two segments, or an empty one among the last
  two) it rejects with a TypeError.  For the path \<^verbatim>\<open>org/repo/sub\<close> and no \<^verbatim>\<open>projectId\<close> the
  result is \<^verbatim>\<open>repo/sub\<close>.
\<close>

theorem getProjectId_segments:
  "getProjectId projectPath projectId =
     (case projectId of
        None \<Rightarrow> path_id projectPath
      | Some i \<Rightarrow> if i \<noteq> [] then Inr i else path_id projectPath)
   \<and> getProjectId (Some ''org/repo/sub'') None = Inr ''repo/sub''"
proof -
  have 1: "getProjectId projectPath projectId =
     (case projectId of
        None \<Rightarrow> path_id projectPath
      | Some i \<Rightarrow> if i \<noteq> [] then Inr i else path_id projectPath)"
    by (simp add: getProjectId_def path_id_def match_repoFullName_segments Let_def
          split: option.splits)
  have "segments_id ''org/repo/sub'' = Some ''repo/sub''"
    by (simp add: segments_id_def)
  then have 2: "getProjectId (Some ''org/repo/sub'') None = Inr ''repo/sub''"
    by (simp add: getProjectId_def match_repoFullName_segments)
  from 1 2 show ?thesis by simp
qed

text \<open>
  C9 as stated says that without a \<^verbatim>\<open>projectId\<close> the last two segments are returned.  The
  last two segments of \<^verbatim>\<open>org/repo/\<close> are \<^verbatim>\<open>repo\<close> and the empty string, and \<^verbatim>\<open>repo\<close> has one
  segment only; on both paths \<^verbatim>\<open>getProjectId\<close> rejects with a TypeError.
\<close>

theorem getProjectId_trailing_slash_counterexample:
  "getProjectId (Some ''org/repo/'') None = Inl TypeError
   \<and> last_two (split_slash ''org/repo/'') = Some (''repo'', [])
   \<and> getProjectId (Some ''repo'') None = Inl TypeError
   \<and> split_slash ''repo'' = [''repo'']"
  by (simp add: getProjectId_def match_repoFullName_segments segments_id_def)

text \<open>
  C10.  When the Token Store has no entry for the sub of the token passed in,
  \<^verbatim>\<open>refreshToken\<close> rejects with the TypeError of reading \<^verbatim>\<open>expiresOn\<close> from \<^verbatim>\<open>undefined\<close>
  and does nothing else: no prompt, no acquisition.  Each authenticated operation awaits
  \<^verbatim>\<open>refreshToken\<close> first, so each rejects the same way without issuing its request.
\<close>

theorem refreshToken_requires_stored_token:
  assumes "giteaTokensBySub w (tok_sub token) = None"
  shows "refreshToken env token w = (Inl TypeError, w)
       \<and> getTree env token projectId branch w = (Inl TypeError, w)
       \<and> getCommits env token projectId branch path' w = (Inl TypeError, w)
       \<and> uploadFile env token projectId branch path content sha w = (Inl TypeError, w)
       \<and> removeFile env token projectId branch path sha w = (Inl TypeError, w)
       \<and> downloadFile env token projectId branch path w = (Inl TypeError, w)"
proof -
  have r: "refreshToken env token w = (Inl TypeError, w)"
    using assms
    by (simp add: refreshToken_def Let_def andThen_def store_giteaTokensBySub_def reject_def)
  then show ?thesis
    by (simp add: getTree_def getCommits_def uploadFile_def removeFile_def downloadFile_def
          andThen_def)
qed

theorem refreshToken_requires_stored_token_witness:
  "giteaTokensBySub (alice_world None False) (tok_sub ((alice_token None)\<lparr>tok_sub := ''https://git.example.com/bob''\<rparr>)) = None
   \<and> refreshToken (online_env (Some 3600) ''bob'') ((alice_token None)\<lparr>tok_sub := ''https://git.example.com/bob''\<rparr>) (alice_world None False)
       = (Inl TypeError, alice_world None False)
   \<and> uploadFile (online_env (Some 3600) ''bob'') ((alice_token None)\<lparr>tok_sub := ''https://git.example.com/bob''\<rparr>)
        ''bob/notes'' ''master'' ''a.md'' ''hello'' None (alice_world None False)
       = (Inl TypeError, alice_world None False)"
  using refreshToken_requires_stored_token
          [where w = "alice_world None False"
             and token = "(alice_token None)\<lparr>tok_sub := ''https://git.example.com/bob''\<rparr>"
             and env = "online_env (Some 3600) ''bob''" and projectId = "''bob/notes''"
             and branch = "''master''" and path = "''a.md''" and content = "''hello''"
             and sha = None]
  by (simp add: alice_world_def alice_token_def alice_sub_def)

end
